theory Spec2Isabelle
  imports Main "HOL-Library.Sublist"
begin

section \<open>Python strings\<close>

text \<open>
  A Python \<open>str\<close> is modelled as a \<open>string\<close>; a \<open>char\<close> stands for the code point of
  the same number, so the strings covered are those with code points below 256.
  \<open>str.isspace\<close> on these code points holds for TAB, LF, VT, FF, CR, the separators
  0x1C to 0x1F, the blank, NEL (0x85) and the no-break space (0xA0).
\<close>

definition py_isspace :: "char \<Rightarrow> bool" where
  "py_isspace c =
     (let n = (of_char c :: nat)
      in (9 \<le> n \<and> n \<le> 13) \<or> (28 \<le> n \<and> n \<le> 32) \<or> n = 133 \<or> n = 160)"

text \<open>\<open>s.strip()\<close>: drop the whitespace at both ends.\<close>

definition py_strip :: "string \<Rightarrow> string" where
  "py_strip s = rev (dropWhile py_isspace (rev (dropWhile py_isspace s)))"

text \<open>\<open>sub in s\<close>.\<close>

fun py_contains :: "string \<Rightarrow> string \<Rightarrow> bool" where
  "py_contains sub [] = (sub = [])"
| "py_contains sub (c # cs) = (prefix sub (c # cs) \<or> py_contains sub cs)"

text \<open>\<open>s.find(sub)\<close>: the lowest index at which \<open>sub\<close> starts, or \<open>-1\<close>.\<close>

fun find_from :: "string \<Rightarrow> string \<Rightarrow> nat \<Rightarrow> int" where
  "find_from sub [] i = (if sub = [] then int i else - 1)"
| "find_from sub (c # cs) i =
     (if prefix sub (c # cs) then int i else find_from sub cs (Suc i))"

definition py_find :: "string \<Rightarrow> string \<Rightarrow> int" where
  "py_find s sub = find_from sub s 0"

text \<open>\<open>s[start:]\<close>: a negative start counts from the end, and the slice is clamped.\<close>

definition py_slice_from :: "string \<Rightarrow> int \<Rightarrow> string" where
  "py_slice_from s start =
     (if 0 \<le> start then drop (nat start) s
      else drop (nat (int (length s) + start)) s)"

text \<open>\<open>sep.join(parts)\<close>.\<close>

fun py_join :: "string \<Rightarrow> string list \<Rightarrow> string" where
  "py_join sep [] = []"
| "py_join sep [p] = p"
| "py_join sep (p # q # ps) = p @ sep @ py_join sep (q # ps)"

section \<open>Formatting the retrieved documents\<close>

text \<open>Of a retrieved document only \<open>page_content\<close> is read.\<close>

record document =
  page_content :: string

definition answer_label :: string where
  "answer_label = ''AnswerBody:''"

text \<open>
  The body of the loop of \<open>format_docs\<close>: a document whose content holds the label
  appends its trimmed tail to \<open>answer_bodies\<close>, any other document leaves the list as
  it is.
\<close>

fun format_docs_loop :: "document list \<Rightarrow> string list \<Rightarrow> string list" where
  "format_docs_loop [] answer_bodies = answer_bodies"
| "format_docs_loop (doc # docs) answer_bodies =
     (let content = page_content doc
      in if py_contains answer_label content
         then (let answer_start = py_find content answer_label + int (length answer_label);
                   answer_body = py_strip (py_slice_from content answer_start)
               in format_docs_loop docs (answer_bodies @ [answer_body]))
         else format_docs_loop docs answer_bodies)"

definition format_docs :: "document list \<Rightarrow> string" where
  "format_docs docs = py_join ''\<newline>\<newline>'' (format_docs_loop docs [])"

subsection \<open>The Context as the specification words it\<close>

text \<open>
  The text that follows the first occurrence of the label in a content, if the label
  occurs at all.
\<close>

fun after_label :: "string \<Rightarrow> string \<Rightarrow> string option" where
  "after_label lab [] = (if lab = [] then Some [] else None)"
| "after_label lab (c # cs) =
     (if prefix lab (c # cs) then Some (drop (length lab) (c # cs))
      else after_label lab cs)"

text \<open>
  The extracted segment of a document: the trimmed text after the label; a document
  without the label has none.
\<close>

definition answer_segment :: "document \<Rightarrow> string option" where
  "answer_segment doc = map_option py_strip (after_label answer_label (page_content doc))"

text \<open>
  The Context of the specification: the segments of the documents that have one, in
  the order of the documents, separated by two newlines.
\<close>

definition context_spec :: "document list \<Rightarrow> string" where
  "context_spec docs = py_join ''\<newline>\<newline>'' (List.map_filter answer_segment docs)"

section \<open>Values, errors and effects of the chain\<close>

text \<open>
  The exceptions the repository's own code can raise on the way: a missing dictionary
  key, and an attribute that the object does not have (type name, attribute name).
\<close>

datatype error = KeyError string | AttributeError string string

text \<open>
  The dictionaries that the guards take and return map strings to strings. They are
  association lists in insertion order; \<open>map_of\<close> is the lookup.
\<close>

type_synonym strdict = "(string \<times> string) list"

text \<open>
  The values of the dictionary that reaches the Output Guard: a plain string, or the
  prompt value that the prompt template produces (an object with a \<open>text\<close>
  attribute).
\<close>

datatype pyval = PyStr string | StringPromptValue string

text \<open>\<open>d.get(key, default)\<close>.\<close>

definition dict_get :: "(string \<times> 'v) list \<Rightarrow> string \<Rightarrow> 'v \<Rightarrow> 'v" where
  "dict_get d key dflt = (case map_of d key of None \<Rightarrow> dflt | Some v \<Rightarrow> v)"

text \<open>\<open>v.text\<close>: a \<open>str\<close> has no such attribute.\<close>

fun text_attr :: "pyval \<Rightarrow> error + string" where
  "text_attr (StringPromptValue t) = Inr t"
| "text_attr (PyStr s) = Inl (AttributeError ''str'' ''text'')"

text \<open>\<open>v.strip()\<close>: a prompt value has no such method.\<close>

fun strip_method :: "pyval \<Rightarrow> error + string" where
  "strip_method (PyStr s) = Inr (py_strip s)"
| "strip_method (StringPromptValue t) = Inl (AttributeError ''StringPromptValue'' ''strip'')"

text \<open>
  The calls to the external services, in the order they are made: the input scanners
  on a prompt, the retriever on a query, the model on a prompt text, the output
  scanners on a prompt and an output.
\<close>

datatype call =
  ScanPrompt string
  | Retrieve string
  | Generate string
  | ScanOutput string string

text \<open>
  What a scan returns: the sanitized text, the validity of each scanner that ran and
  its score.
\<close>

type_synonym 'f scan = "string \<times> (string \<times> bool) list \<times> (string \<times> 'f) list"

text \<open>
  The external services are parameters of the model, each a function of its
  arguments: \<open>scan_prompt\<close> is \<open>scan_prompt(input_scanners, _, fail_fast=True)\<close>,
  \<open>scan_output\<close> is \<open>scan_output(output_scanners, _, _)\<close>, \<open>retriever\<close> the
  reranking retriever, \<open>llm\<close> the model followed by the string output parser, and
  \<open>float_repr\<close> the text of a score (a float of type \<open>'f\<close>).
\<close>

record 'f services =
  scan_prompt :: "string \<Rightarrow> 'f scan"
  scan_output :: "string \<Rightarrow> string \<Rightarrow> 'f scan"
  retriever :: "string \<Rightarrow> document list"
  llm :: "string \<Rightarrow> string"
  float_repr :: "'f \<Rightarrow> string"

text \<open>
  A runnable takes an input, makes calls and either raises or returns an output.
\<close>

type_synonym ('a, 'b) runnable = "'a \<Rightarrow> call list \<times> (error + 'b)"

text \<open>
  \<open>first | second\<close>: the output of the first runnable is the input of the second,
  whatever it is; an exception of the first is the exception of the sequence.
\<close>

definition pipe :: "('a, 'b) runnable \<Rightarrow> ('b, 'c) runnable \<Rightarrow> ('a, 'c) runnable" where
  "pipe first second input =
     (case first input of
        (calls, Inl e) \<Rightarrow> (calls, Inl e)
      | (calls, Inr mid) \<Rightarrow>
          (case second mid of (calls', out) \<Rightarrow> (calls @ calls', out)))"

section \<open>The text of a dictionary\<close>

text \<open>
  \<open>repr\<close> of a string: in single quotes, unless the string has a single quote and
  no double quote; the quote and the backslash are escaped, TAB, LF and CR are written
  \<open>\t\<close>, \<open>\n\<close>, \<open>\r\<close>, and any other character that is not printable is
  written \<open>\xhh\<close>.
\<close>

definition hex_digit :: "nat \<Rightarrow> char" where
  "hex_digit n = ''0123456789abcdef'' ! (n mod 16)"

definition hex_escape :: "char \<Rightarrow> string" where
  "hex_escape c =
     (let n = (of_char c :: nat)
      in [CHR 0x5C, CHR ''x'', hex_digit (n div 16), hex_digit n])"

definition py_isprintable :: "char \<Rightarrow> bool" where
  "py_isprintable c =
     (let n = (of_char c :: nat)
      in if n < 127 then 32 \<le> n else if n = 173 then False else 161 \<le> n)"

definition repr_char :: "char \<Rightarrow> char \<Rightarrow> string" where
  "repr_char quote c =
     (if c = quote then [CHR 0x5C, c]
      else if c = CHR 0x5C then [CHR 0x5C, c]
      else if c = CHR 0x09 then [CHR 0x5C, CHR ''t'']
      else if c = CHR 0x0A then [CHR 0x5C, CHR ''n'']
      else if c = CHR 0x0D then [CHR 0x5C, CHR ''r'']
      else if py_isprintable c then [c]
      else hex_escape c)"

definition py_repr :: "string \<Rightarrow> string" where
  "py_repr s =
     (let quote = (if List.member s (CHR 0x27) \<and> \<not> List.member s (CHR 0x22)
                   then CHR 0x22 else CHR 0x27)
      in [quote] @ concat (map (repr_char quote) s) @ [quote])"

text \<open>\<open>str\<close> of a dictionary with string keys, given the \<open>repr\<close> of its values.\<close>

definition py_repr_dict :: "('v \<Rightarrow> string) \<Rightarrow> (string \<times> 'v) list \<Rightarrow> string" where
  "py_repr_dict repr_value d =
     ''{'' @ py_join '', '' (map (\<lambda>(k, v). py_repr k @ '': '' @ repr_value v) d) @ ''}''"

section \<open>The guards\<close>

text \<open>\<open>any(not result for result in results_valid.values())\<close>.\<close>

definition any_invalid :: "(string \<times> bool) list \<Rightarrow> bool" where
  "any_invalid results_valid = list_ex (\<lambda>result. \<not> result) (map snd results_valid)"

text \<open>
  \<open>llm_guard_input\<close>. The logging calls have no part in the result and are left out.
\<close>

definition llm_guard_input :: "'f services \<Rightarrow> (strdict, strdict) runnable" where
  "llm_guard_input sv qa_input =
     (let question = py_strip (dict_get qa_input ''question'' [])
      in if question = []
         then ([], Inr [(''error'', ''Invalid input. Please enter a valid question.'')])
         else (case scan_prompt sv question of
                 (sanitized_prompt, results_valid, results_score) \<Rightarrow>
                   ([ScanPrompt question],
                    if any_invalid results_valid
                    then Inr [(''error'',
                               ''Input rejected: ''
                               @ py_repr_dict (float_repr sv) results_score
                               @ ''. Your question violates policy.'')]
                    else Inr [(''question'', sanitized_prompt)])))"

text \<open>\<open>llm_guard_output\<close>.\<close>

definition llm_guard_output :: "'f services \<Rightarrow> ((string \<times> pyval) list, strdict) runnable" where
  "llm_guard_output sv llm_output =
     (case text_attr (dict_get llm_output ''question'' (PyStr [])) of
        Inl e \<Rightarrow> ([], Inl e)
      | Inr original_prompt \<Rightarrow>
          (case strip_method (dict_get llm_output ''llm_response'' (PyStr [])) of
             Inl e \<Rightarrow> ([], Inl e)
           | Inr model_response \<Rightarrow>
               if model_response = []
               then ([], Inr [(''response'', ''I cannot provide an answer to this question.'')])
               else (case scan_output sv original_prompt model_response of
                       (sanitized_response, results_valid, results_score) \<Rightarrow>
                         ([ScanOutput original_prompt model_response],
                          if any_invalid results_valid
                          then Inr [(''response'',
                                     ''response rejected. The model response violates policy!'')]
                          else Inr [(''response'', sanitized_response)]))))"

section \<open>The chain\<close>

text \<open>
  The first parallel step of \<open>main_chain\<close> returns the dictionary with the keys
  \<open>context\<close> and \<open>question\<close>; its values have different types, so it is a record.
  The passthrough puts the whole input of the step under \<open>question\<close>.
\<close>

record prompt_input =
  context_var :: string
  question_var :: strdict

text \<open>\<open>(lambda x: x["question"]) | retriever | format_docs\<close>.\<close>

definition context_step :: "'f services \<Rightarrow> (strdict, string) runnable" where
  "context_step sv x =
     (case map_of x ''question'' of
        None \<Rightarrow> ([], Inl (KeyError ''question''))
      | Some query \<Rightarrow> ([Retrieve query], Inr (format_docs (retriever sv query))))"

text \<open>\<open>RunnableParallel({"context": ..., "question": RunnablePassthrough()})\<close>.\<close>

definition retrieval_step :: "'f services \<Rightarrow> (strdict, prompt_input) runnable" where
  "retrieval_step sv x =
     (case context_step sv x of
        (calls, Inl e) \<Rightarrow> (calls, Inl e)
      | (calls, Inr c) \<Rightarrow> (calls, Inr \<lparr>context_var = c, question_var = x\<rparr>))"

text \<open>
  The prompt template, filled as an f-string: each variable is replaced by the
  \<open>str\<close> of its value. The result is the text of a prompt value.
\<close>

definition prompt_template :: "string \<Rightarrow> string \<Rightarrow> string" where
  "prompt_template context_str question_str =
     ''You are a knowledgeable and empathetic assistant helping parents with\<newline>''
     @ ''    their questions.\<newline>''
     @ ''\<newline>''
     @ ''    '' @ context_str @ ''\<newline>''
     @ ''\<newline>''
     @ ''    Question: '' @ question_str @ ''\<newline>''
     @ ''    Answer:''"

definition prompt :: "(prompt_input, string) runnable" where
  "prompt inp =
     ([], Inr (prompt_template (context_var inp) (py_repr_dict py_repr (question_var inp))))"

text \<open>
  \<open>RunnableParallel({"llm_response": llm | StrOutputParser(), "question":
  RunnablePassthrough()})\<close>: the input of this step is the prompt value.
\<close>

definition generation_step :: "'f services \<Rightarrow> (string, (string \<times> pyval) list) runnable" where
  "generation_step sv prompt_text =
     ([Generate prompt_text],
      Inr [(''llm_response'', PyStr (llm sv prompt_text)),
           (''question'', StringPromptValue prompt_text)])"

definition main_chain :: "'f services \<Rightarrow> (strdict, (string \<times> pyval) list) runnable" where
  "main_chain sv = pipe (pipe (retrieval_step sv) prompt) (generation_step sv)"

text \<open>
  \<open>RunnableLambda(llm_guard_input) | main_chain | RunnableLambda(llm_guard_output)\<close>.
\<close>

definition guard_chain :: "'f services \<Rightarrow> (strdict, strdict) runnable" where
  "guard_chain sv = pipe (pipe (llm_guard_input sv) (main_chain sv)) (llm_guard_output sv)"

section \<open>The orchestrator\<close>

text \<open>What \<open>chatbot_response\<close> returns: a string or a dictionary.\<close>

datatype reply = ReplyStr string | ReplyDict strdict

text \<open>
  \<open>chatbot_response\<close>, for any chain. The monitoring handler is a callback of the
  invocation and has no part in the result.
\<close>

definition chatbot_response :: "string \<Rightarrow> (strdict, strdict) runnable \<Rightarrow> call list \<times> (error + reply)" where
  "chatbot_response question qa_chain =
     (case qa_chain [(''question'', question)] of
        (calls, Inl e) \<Rightarrow> (calls, Inl e)
      | (calls, Inr response) \<Rightarrow>
          (case map_of response ''error'' of
             Some message \<Rightarrow> (calls, Inr (ReplyStr message))
           | None \<Rightarrow> (calls, Inr (ReplyDict response))))"

section \<open>Concrete services for the examples\<close>

text \<open>
  Scanners that accept every text and leave it as it is, a retriever with one labelled
  document, and a model that always answers \<open>ok\<close>.
\<close>

definition accepting :: "nat services" where
  "accepting =
     \<lparr>scan_prompt = (\<lambda>p. (p, [(''Toxicity'', True)], [(''Toxicity'', 0)])),
      scan_output = (\<lambda>p out. (out, [(''Relevance'', True)], [(''Relevance'', 0)])),
      retriever = (\<lambda>q. [\<lparr>page_content = ''AnswerBody: a story''\<rparr>]),
      llm = (\<lambda>p. '' ok ''),
      float_repr = (\<lambda>n. if n = 0 then ''0.0'' else ''1.0'')\<rparr>"

text \<open>
  Scanners that redact the digits of a prompt, reject a prompt that has an
  exclamation mark and reject an output that has a question mark.
\<close>

definition redacting :: "nat services" where
  "redacting =
     \<lparr>scan_prompt = (\<lambda>p. (filter (\<lambda>c. \<not> List.member ''0123456789'' c) p,
                            [(''PromptInjection'', \<not> List.member p (CHR ''!''))],
                            [(''PromptInjection'', if List.member p (CHR ''!'') then 1 else 0)])),
      scan_output = (\<lambda>p out. (out, [(''Sensitive'', \<not> List.member out (CHR ''?''))],
                               [(''Sensitive'', 0)])),
      retriever = (\<lambda>q. []),
      llm = (\<lambda>p. ''why?''),
      float_repr = (\<lambda>n. if n = 0 then ''0.0'' else ''1.0'')\<rparr>"

section \<open>Properties of the string operations\<close>

lemma dropWhile_all_Nil: "list_all P (dropWhile P xs) \<longleftrightarrow> dropWhile P xs = []"
proof
  assume all: "list_all P (dropWhile P xs)"
  show "dropWhile P xs = []"
  proof (rule ccontr)
    assume ne: "dropWhile P xs \<noteq> []"
    then have "\<not> P (hd (dropWhile P xs))" by (rule hd_dropWhile)
    moreover from ne all have "P (hd (dropWhile P xs))"
      by (simp add: list_all_iff)
    ultimately show False by simp
  qed
next
  assume "dropWhile P xs = []"
  then have "list_all P (dropWhile P xs) = list_all P []" by (rule arg_cong)
  then show "list_all P (dropWhile P xs)" by simp
qed

lemma py_strip_Nil_iff: "py_strip s = [] \<longleftrightarrow> list_all py_isspace s"
proof -
  have "py_strip s = [] \<longleftrightarrow> list_all py_isspace (dropWhile py_isspace s)"
    by (simp add: py_strip_def list_all_iff)
  also have "\<dots> \<longleftrightarrow> dropWhile py_isspace s = []"
    by (rule dropWhile_all_Nil)
  also have "\<dots> \<longleftrightarrow> list_all py_isspace s"
    by (simp add: list_all_iff)
  finally show ?thesis .
qed

text \<open>\<open>py_contains\<close> is the substring test.\<close>

lemma py_contains_iff: "py_contains sub s \<longleftrightarrow> (\<exists>pre post. s = pre @ sub @ post)"
proof (induction s)
  case Nil
  then show ?case by auto
next
  case (Cons c cs)
  show ?case
  proof
    assume "py_contains sub (c # cs)"
    then consider "prefix sub (c # cs)" | "py_contains sub cs" by auto
    then show "\<exists>pre post. c # cs = pre @ sub @ post"
    proof cases
      case 1
      then obtain post where "c # cs = sub @ post" by (auto simp: prefix_def)
      then have "c # cs = [] @ sub @ post" by simp
      then show ?thesis by blast
    next
      case 2
      with Cons.IH obtain pre post where "cs = pre @ sub @ post" by blast
      then have "c # cs = (c # pre) @ sub @ post" by simp
      then show ?thesis by blast
    qed
  next
    assume "\<exists>pre post. c # cs = pre @ sub @ post"
    then obtain pre post where split: "c # cs = pre @ sub @ post" by blast
    show "py_contains sub (c # cs)"
    proof (cases pre)
      case Nil
      with split have "prefix sub (c # cs)" by (simp add: prefix_def)
      then show ?thesis by simp
    next
      case (Cons a pre')
      with split have "cs = pre' @ sub @ post" by simp
      with Cons.IH have "py_contains sub cs" by blast
      then show ?thesis by simp
    qed
  qed
qed

lemma after_label_None_iff: "after_label lab s = None \<longleftrightarrow> \<not> py_contains lab s"
  by (induction s) auto

lemma find_from_slice:
  "after_label lab s = Some t \<Longrightarrow>
     \<exists>k. find_from lab s i = int (i + k) \<and> drop (k + length lab) s = t"
proof (induction s arbitrary: i)
  case Nil
  then show ?case by (auto split: if_splits)
next
  case (Cons c cs)
  show ?case
  proof (cases "prefix lab (c # cs)")
    case True
    with Cons.prems show ?thesis by (intro exI [of _ 0]) simp
  next
    case False
    with Cons.prems have "after_label lab cs = Some t" by simp
    from Cons.IH [OF this, of "Suc i"] obtain k
      where k: "find_from lab cs (Suc i) = int (Suc i + k)" "drop (k + length lab) cs = t"
      by blast
    with False show ?thesis by (intro exI [of _ "Suc k"]) simp
  qed
qed

lemma slice_after_find:
  assumes "after_label lab s = Some t"
  shows "py_slice_from s (py_find s lab + int (length lab)) = t"
proof -
  from find_from_slice [OF assms, of 0] obtain k
    where k: "find_from lab s 0 = int k" "drop (k + length lab) s = t"
    by auto
  have "py_find s lab + int (length lab) = int (k + length lab)"
    using k(1) by (simp add: py_find_def)
  then show ?thesis
    using k(2) by (simp add: py_slice_from_def del: of_nat_add)
qed

lemma format_docs_loop_acc:
  "format_docs_loop docs acc = acc @ List.map_filter answer_segment docs"
proof (induction docs arbitrary: acc)
  case Nil
  then show ?case by simp
next
  case (Cons doc docs)
  show ?case
  proof (cases "after_label answer_label (page_content doc)")
    case None
    then have "\<not> py_contains answer_label (page_content doc)"
      by (simp add: after_label_None_iff)
    with None Cons.IH show ?thesis
      by (simp add: answer_segment_def)
  next
    case (Some t)
    then have "py_contains answer_label (page_content doc)"
      using after_label_None_iff [of answer_label "page_content doc"] by simp
    with Some Cons.IH slice_after_find [OF Some] show ?thesis
      by (simp add: answer_segment_def Let_def)
  qed
qed

text \<open>
  What \<open>after_label\<close> returns: the content splits at the label, and the label does not
  start anywhere before the split.
\<close>

lemma after_label_split:
  "after_label lab s = Some t \<Longrightarrow>
     \<exists>pre. s = pre @ lab @ t \<and> (\<forall>j < length pre. \<not> prefix lab (drop j s))"
proof (induction s)
  case Nil
  then show ?case by (auto split: if_splits)
next
  case (Cons c cs)
  show ?case
  proof (cases "prefix lab (c # cs)")
    case True
    with Cons.prems have "c # cs = [] @ lab @ t"
      by (auto simp: prefix_def)
    then show ?thesis by (intro exI [of _ "[]"]) simp
  next
    case False
    with Cons.prems have "after_label lab cs = Some t" by simp
    from Cons.IH [OF this] obtain pre
      where pre: "cs = pre @ lab @ t" "\<forall>j < length pre. \<not> prefix lab (drop j cs)"
      by blast
    have "\<forall>j < length (c # pre). \<not> prefix lab (drop j (c # cs))"
    proof (intro allI impI)
      fix j assume "j < length (c # pre)"
      then show "\<not> prefix lab (drop j (c # cs))"
        using False pre(2) by (cases j) auto
    qed
    with pre(1) show ?thesis by (intro exI [of _ "c # pre"]) simp
  qed
qed

section \<open>The Context\<close>

text \<open>
  C8. For every sequence of retrieved documents, the string built by \<open>format_docs\<close> is
  the Context of the specification: the trimmed texts after the first
  \<open>AnswerBody:\<close> label of exactly the documents whose content contains the label, in
  the order the retriever returned them, joined by two newlines. A document without
  the label has no segment and adds nothing.
\<close>

theorem format_docs_is_context: "format_docs docs = context_spec docs"
  by (simp add: format_docs_def context_spec_def format_docs_loop_acc)

theorem format_docs_is_context_witness:
  "format_docs [\<lparr>page_content = ''Q: nap AnswerBody:  keep a routine ''\<rparr>,
                \<lparr>page_content = ''no label here''\<rparr>,
                \<lparr>page_content = ''AnswerBody:be calm AnswerBody: again''\<rparr>]
     = ''keep a routine\<newline>\<newline>be calm AnswerBody: again''
   \<and> context_spec [\<lparr>page_content = ''Q: nap AnswerBody:  keep a routine ''\<rparr>,
                \<lparr>page_content = ''no label here''\<rparr>,
                \<lparr>page_content = ''AnswerBody:be calm AnswerBody: again''\<rparr>]
     = ''keep a routine\<newline>\<newline>be calm AnswerBody: again''"
  using format_docs_is_context
    [of "[\<lparr>page_content = ''Q: nap AnswerBody:  keep a routine ''\<rparr>,
          \<lparr>page_content = ''no label here''\<rparr>,
          \<lparr>page_content = ''AnswerBody:be calm AnswerBody: again''\<rparr>]"]
  by (simp add: context_spec_def answer_segment_def answer_label_def
      py_strip_def py_isspace_def)

section \<open>Properties of the guards and of the chain\<close>

lemma any_invalid_iff: "any_invalid results_valid \<longleftrightarrow> (\<exists>r \<in> set results_valid. \<not> snd r)"
  by (auto simp: any_invalid_def list_ex_iff)

lemma llm_guard_input_blank_lemma:
  assumes "py_strip (dict_get qa_input ''question'' []) = []"
  shows "llm_guard_input sv qa_input =
           ([], Inr [(''error'', ''Invalid input. Please enter a valid question.'')])"
  using assms by (simp add: llm_guard_input_def)

lemma llm_guard_input_scanned:
  assumes "py_strip (dict_get qa_input ''question'' []) = q" and "q \<noteq> []"
    and "scan_prompt sv q = (sanitized, results_valid, results_score)"
  shows "llm_guard_input sv qa_input =
           ([ScanPrompt q],
            if any_invalid results_valid
            then Inr [(''error'', ''Input rejected: ''
                        @ py_repr_dict (float_repr sv) results_score
                        @ ''. Your question violates policy.'')]
            else Inr [(''question'', sanitized)])"
  using assms by (simp add: llm_guard_input_def)

lemma llm_guard_output_blank_lemma:
  assumes "map_of llm_output ''question'' = Some (StringPromptValue p)"
    and "dict_get llm_output ''llm_response'' (PyStr []) = PyStr r"
    and "py_strip r = []"
  shows "llm_guard_output sv llm_output =
           ([], Inr [(''response'', ''I cannot provide an answer to this question.'')])"
  using assms by (simp add: llm_guard_output_def dict_get_def)

lemma llm_guard_output_scanned_lemma:
  assumes "map_of llm_output ''question'' = Some (StringPromptValue p)"
    and "dict_get llm_output ''llm_response'' (PyStr []) = PyStr r"
    and "py_strip r \<noteq> []"
    and "scan_output sv p (py_strip r) = (sanitized, results_valid, results_score)"
  shows "llm_guard_output sv llm_output =
           ([ScanOutput p (py_strip r)],
            if any_invalid results_valid
            then Inr [(''response'', ''response rejected. The model response violates policy!'')]
            else Inr [(''response'', sanitized)])"
  using assms by (simp add: llm_guard_output_def dict_get_def)

lemma main_chain_question:
  "main_chain sv [(''question'', s)] =
     (let p = prompt_template (format_docs (retriever sv s))
                (py_repr_dict py_repr [(''question'', s)])
      in ([Retrieve s, Generate p],
          Inr [(''llm_response'', PyStr (llm sv p)), (''question'', StringPromptValue p)]))"
  by (simp add: main_chain_def pipe_def retrieval_step_def context_step_def prompt_def
      generation_step_def Let_def)

lemma main_chain_no_question:
  "map_of x ''question'' = None \<Longrightarrow> main_chain sv x = ([], Inl (KeyError ''question''))"
  by (simp add: main_chain_def pipe_def retrieval_step_def context_step_def)

lemma llm_guard_output_keys:
  "llm_guard_output sv llm_output = (calls, Inr d) \<Longrightarrow> \<exists>r. d = [(''response'', r)]"
  by (auto simp: llm_guard_output_def split: sum.splits if_splits prod.splits)

lemma guard_chain_keys:
  "guard_chain sv qa_input = (calls, Inr d) \<Longrightarrow> \<exists>r. d = [(''response'', r)]"
  unfolding guard_chain_def pipe_def [of _ "llm_guard_output sv"]
  by (auto split: prod.splits sum.splits dest: llm_guard_output_keys)

lemma all_valid_iff: "(\<forall>r \<in> set results_valid. snd r) \<longleftrightarrow> \<not> any_invalid results_valid"
  by (simp add: any_invalid_iff)

lemma guard_chain_accepted:
  assumes "py_strip (dict_get qa_input ''question'' []) = q" and "q \<noteq> []"
    and "scan_prompt sv q = (sanitized, results_valid, results_score)"
    and "\<not> any_invalid results_valid"
    and "p = prompt_template (format_docs (retriever sv sanitized))
               (py_repr_dict py_repr [(''question'', sanitized)])"
  shows "guard_chain sv qa_input =
           ([ScanPrompt q, Retrieve sanitized, Generate p]
              @ fst (llm_guard_output sv [(''llm_response'', PyStr (llm sv p)),
                                          (''question'', StringPromptValue p)]),
            snd (llm_guard_output sv [(''llm_response'', PyStr (llm sv p)),
                                      (''question'', StringPromptValue p)]))"
proof -
  have "llm_guard_input sv qa_input = ([ScanPrompt q], Inr [(''question'', sanitized)])"
    using llm_guard_input_scanned [OF assms(1-3)] assms(4) by simp
  moreover have "main_chain sv [(''question'', sanitized)] =
      ([Retrieve sanitized, Generate p],
       Inr [(''llm_response'', PyStr (llm sv p)), (''question'', StringPromptValue p)])"
    using assms(5) by (simp add: main_chain_question Let_def)
  ultimately show ?thesis
    by (simp add: guard_chain_def pipe_def split: prod.splits)
qed

lemma guard_chain_rejected:
  assumes "py_strip (dict_get qa_input ''question'' []) = q"
    and "q = [] \<or> any_invalid (fst (snd (scan_prompt sv q)))"
  shows "snd (guard_chain sv qa_input) = Inl (KeyError ''question'')"
proof (cases "q = []")
  case True
  with assms(1) have "llm_guard_input sv qa_input =
      ([], Inr [(''error'', ''Invalid input. Please enter a valid question.'')])"
    by (simp add: llm_guard_input_blank_lemma)
  then show ?thesis
    by (simp add: guard_chain_def pipe_def main_chain_no_question)
next
  case False
  obtain s v sc where sc: "scan_prompt sv q = (s, v, sc)" by (cases "scan_prompt sv q")
  with assms(2) False have "any_invalid v" by simp
  with llm_guard_input_scanned [OF assms(1) False sc]
  show ?thesis
    by (simp add: guard_chain_def pipe_def main_chain_no_question)
qed

lemma chatbot_response_never_string:
  "snd (chatbot_response question (guard_chain sv)) \<noteq> Inr (ReplyStr message)"
proof (cases "guard_chain sv [(''question'', question)]")
  case (Pair calls res)
  show ?thesis
  proof (cases res)
    case (Inl e)
    with Pair show ?thesis by (simp add: chatbot_response_def)
  next
    case (Inr d)
    with Pair guard_chain_keys [of sv _ calls d] obtain r where "d = [(''response'', r)]"
      by blast
    with Pair Inr show ?thesis by (simp add: chatbot_response_def)
  qed
qed

section \<open>The orchestrator's result\<close>

text \<open>
  C1. The claim: for every question the orchestrator returns a plain string, the
  \<open>error\<close> string when the chain's result carries that key and the \<open>response\<close>
  string otherwise, never a dictionary and never an exception. What
  \<open>chatbot_response\<close> does on the composed chain: on the empty question and on a
  question that a scanner rejects, the error dictionary of the Input Guard is handed
  to \<open>main_chain\<close>, whose lookup of \<open>question\<close> raises \<open>KeyError\<close>; on an
  accepted question the whole dictionary \<open>{response: ...}\<close> is returned, not the
  string under \<open>response\<close>.
\<close>

theorem chatbot_response_not_a_string:
  "chatbot_response [] (guard_chain accepting) = ([], Inl (KeyError ''question''))
   \<and> chatbot_response ''stop!'' (guard_chain redacting)
       = ([ScanPrompt ''stop!''], Inl (KeyError ''question''))
   \<and> snd (chatbot_response ''hi'' (guard_chain accepting))
       = Inr (ReplyDict [(''response'', ''ok'')])"
  by (simp add: chatbot_response_def guard_chain_def pipe_def llm_guard_input_def
      main_chain_def retrieval_step_def context_step_def prompt_def generation_step_def
      llm_guard_output_def dict_get_def accepting_def redacting_def any_invalid_def
      py_strip_def py_isspace_def Let_def)

section \<open>What the output scanners are given\<close>

text \<open>
  The claim C2 as stated, that the first element of the scanned pair is the user's
  question, fails: for the question \<open>hi\<close> the output scanners are called with the
  whole rendered prompt.
\<close>

theorem output_scan_first_argument_counterexample:
  "last (fst (guard_chain accepting [(''question'', ''hi'')]))
     = ScanOutput
         (''You are a knowledgeable and empathetic assistant helping parents with\<newline>''
          @ ''    their questions.\<newline>\<newline>    a story\<newline>\<newline>''
          @ ''    Question: {'question': 'hi'}\<newline>    Answer:'')
         ''ok''
   \<and> last (fst (guard_chain accepting [(''question'', ''hi'')])) \<noteq> ScanOutput ''hi'' ''ok''"
  by (simp add: guard_chain_def pipe_def llm_guard_input_def
      main_chain_def retrieval_step_def context_step_def prompt_def generation_step_def
      llm_guard_output_def dict_get_def accepting_def any_invalid_def
      py_strip_def py_isspace_def Let_def prompt_template_def py_repr_dict_def py_repr_def
      repr_char_def py_isprintable_def format_docs_def answer_label_def py_find_def
      py_slice_from_def)

text \<open>
  C2 (amended). For every question that the Input Guard accepts and every generated
  answer that is non-empty after trimming, the Output Guard runs its scanners once
  against the pair (text of the rendered prompt handed to the model, trimmed generated
  text): the first element is the very text of the \<open>Generate\<close> call before it.
\<close>

theorem output_scan_on_prompt_text:
  assumes "py_strip (dict_get qa_input ''question'' []) = q" and "q \<noteq> []"
    and "scan_prompt sv q = (sanitized, results_valid, results_score)"
    and "\<forall>r \<in> set results_valid. snd r"
    and "p = prompt_template (format_docs (retriever sv sanitized))
               (py_repr_dict py_repr [(''question'', sanitized)])"
    and "py_strip (llm sv p) \<noteq> []"
  shows "fst (guard_chain sv qa_input)
           = [ScanPrompt q, Retrieve sanitized, Generate p, ScanOutput p (py_strip (llm sv p))]"
proof -
  obtain s v sc where out: "scan_output sv p (py_strip (llm sv p)) = (s, v, sc)"
    by (cases "scan_output sv p (py_strip (llm sv p))")
  have "fst (llm_guard_output sv [(''llm_response'', PyStr (llm sv p)),
                                   (''question'', StringPromptValue p)])
          = [ScanOutput p (py_strip (llm sv p))]"
    by (subst llm_guard_output_scanned_lemma [OF _ _ assms(6) out])
      (simp_all add: dict_get_def)
  moreover from assms(4) have "\<not> any_invalid results_valid"
    by (simp add: all_valid_iff)
  ultimately show ?thesis
    using guard_chain_accepted [OF assms(1-3) _ assms(5)] by simp
qed

theorem output_scan_on_prompt_text_witness:
  "fst (guard_chain redacting [(''question'', '' call 555 now'')])
     = [ScanPrompt ''call 555 now'', Retrieve ''call  now'',
        Generate (''You are a knowledgeable and empathetic assistant helping parents with\<newline>''
          @ ''    their questions.\<newline>\<newline>    \<newline>\<newline>''
          @ ''    Question: {'question': 'call  now'}\<newline>    Answer:''),
        ScanOutput (''You are a knowledgeable and empathetic assistant helping parents with\<newline>''
          @ ''    their questions.\<newline>\<newline>    \<newline>\<newline>''
          @ ''    Question: {'question': 'call  now'}\<newline>    Answer:'') ''why?'']"
proof -
  have q: "py_strip (dict_get [(''question'', '' call 555 now'')] ''question'' []) = ''call 555 now''"
    by (simp add: dict_get_def py_strip_def py_isspace_def)
  have ne: "''call 555 now'' \<noteq> []" by simp
  have scan: "scan_prompt redacting ''call 555 now''
      = (''call  now'', [(''PromptInjection'', True)], [(''PromptInjection'', 0)])"
    by (simp add: redacting_def)
  have valid: "\<forall>r \<in> set [(''PromptInjection'', True)]. snd r" by simp
  have p: "''You are a knowledgeable and empathetic assistant helping parents with\<newline>''
          @ ''    their questions.\<newline>\<newline>    \<newline>\<newline>''
          @ ''    Question: {'question': 'call  now'}\<newline>    Answer:''
      = prompt_template (format_docs (retriever redacting ''call  now''))
          (py_repr_dict py_repr [(''question'', ''call  now'')])"
    by (simp add: redacting_def prompt_template_def py_repr_dict_def py_repr_def
        repr_char_def py_isprintable_def format_docs_def Let_def)
  have out: "py_strip (llm redacting (''You are a knowledgeable and empathetic assistant helping parents with\<newline>''
          @ ''    their questions.\<newline>\<newline>    \<newline>\<newline>''
          @ ''    Question: {'question': 'call  now'}\<newline>    Answer:'')) = ''why?''"
    by (simp add: redacting_def py_strip_def py_isspace_def)
  then have ne': "py_strip (llm redacting (''You are a knowledgeable and empathetic assistant helping parents with\<newline>''
          @ ''    their questions.\<newline>\<newline>    \<newline>\<newline>''
          @ ''    Question: {'question': 'call  now'}\<newline>    Answer:'')) \<noteq> []"
    by simp
  show ?thesis
    using output_scan_on_prompt_text [OF q ne scan valid p ne'] out by simp
qed

section \<open>The Input Guard\<close>

text \<open>
  C3. For every input whose question is empty or made of whitespace only (an input
  without the key counts as the empty question), the Input Guard returns the fixed
  error object \<open>{error: "Invalid input. Please enter a valid question."}\<close> and
  calls no scanner.
\<close>

theorem input_guard_blank_question:
  assumes "dict_get qa_input ''question'' [] = question"
    and "\<forall>c \<in> set question. py_isspace c"
  shows "llm_guard_input sv qa_input
           = ([], Inr [(''error'', ''Invalid input. Please enter a valid question.'')])"
proof -
  from assms(2) have "py_strip question = []"
    by (simp add: py_strip_Nil_iff list_all_iff)
  with assms(1) show ?thesis
    by (simp add: llm_guard_input_blank_lemma)
qed

theorem input_guard_blank_question_witness:
  "llm_guard_input redacting [(''question'', '' \<newline>  '')]
     = ([], Inr [(''error'', ''Invalid input. Please enter a valid question.'')])
   \<and> llm_guard_input redacting []
     = ([], Inr [(''error'', ''Invalid input. Please enter a valid question.'')])"
proof
  have "dict_get [(''question'', '' \<newline>  '')] ''question'' [] = '' \<newline>  ''"
    by (simp add: dict_get_def)
  moreover have "\<forall>c \<in> set '' \<newline>  ''. py_isspace c"
    by (simp add: py_isspace_def)
  ultimately show "llm_guard_input redacting [(''question'', '' \<newline>  '')]
     = ([], Inr [(''error'', ''Invalid input. Please enter a valid question.'')])"
    by (rule input_guard_blank_question)
next
  have "dict_get ([] :: strdict) ''question'' [] = []"
    by (simp add: dict_get_def)
  moreover have "\<forall>c \<in> set []. py_isspace c" by simp
  ultimately show "llm_guard_input redacting []
     = ([], Inr [(''error'', ''Invalid input. Please enter a valid question.'')])"
    by (rule input_guard_blank_question)
qed

text \<open>
  C4. For every question that is non-empty after trimming and on which every input
  scanner reports valid, the Input Guard returns \<open>{question: sanitized}\<close>, where
  \<open>sanitized\<close> is the text that the scanners returned. The Answer Pipeline works on
  this text and not on the raw question: the retriever is called on \<open>sanitized\<close>, and
  the prompt given to the model is the template filled with the Context of those
  documents and with the \<open>str\<close> of the dictionary \<open>{question: sanitized}\<close>. These
  are the first three calls of the whole chain.
\<close>

theorem sanitized_question_feeds_pipeline:
  assumes "py_strip (dict_get qa_input ''question'' []) = q" and "q \<noteq> []"
    and "scan_prompt sv q = (sanitized, results_valid, results_score)"
    and "\<forall>r \<in> set results_valid. snd r"
    and "p = prompt_template (format_docs (retriever sv sanitized))
               (py_repr_dict py_repr [(''question'', sanitized)])"
  shows "llm_guard_input sv qa_input = ([ScanPrompt q], Inr [(''question'', sanitized)])
    \<and> main_chain sv [(''question'', sanitized)]
          = ([Retrieve sanitized, Generate p],
             Inr [(''llm_response'', PyStr (llm sv p)), (''question'', StringPromptValue p)])
    \<and> take 3 (fst (guard_chain sv qa_input)) = [ScanPrompt q, Retrieve sanitized, Generate p]"
proof (intro conjI)
  from assms(4) have valid: "\<not> any_invalid results_valid"
    by (simp add: all_valid_iff)
  with llm_guard_input_scanned [OF assms(1-3)]
  show "llm_guard_input sv qa_input = ([ScanPrompt q], Inr [(''question'', sanitized)])"
    by simp
  show "main_chain sv [(''question'', sanitized)]
           = ([Retrieve sanitized, Generate p],
              Inr [(''llm_response'', PyStr (llm sv p)), (''question'', StringPromptValue p)])"
    using assms(5) by (simp add: main_chain_question Let_def)
  show "take 3 (fst (guard_chain sv qa_input)) = [ScanPrompt q, Retrieve sanitized, Generate p]"
    using guard_chain_accepted [OF assms(1-3) valid assms(5)] by simp
qed

theorem sanitized_question_feeds_pipeline_witness:
  "llm_guard_input redacting [(''question'', ''my number is 12345 '')]
     = ([ScanPrompt ''my number is 12345''], Inr [(''question'', ''my number is '')])
   \<and> take 3 (fst (guard_chain redacting [(''question'', ''my number is 12345 '')]))
     = [ScanPrompt ''my number is 12345'', Retrieve ''my number is '',
        Generate (''You are a knowledgeable and empathetic assistant helping parents with\<newline>''
          @ ''    their questions.\<newline>\<newline>    \<newline>\<newline>''
          @ ''    Question: {'question': 'my number is '}\<newline>    Answer:'')]"
proof -
  have q: "py_strip (dict_get [(''question'', ''my number is 12345 '')] ''question'' [])
      = ''my number is 12345''"
    by (simp add: dict_get_def py_strip_def py_isspace_def)
  have ne: "''my number is 12345'' \<noteq> []" by simp
  have scan: "scan_prompt redacting ''my number is 12345''
      = (''my number is '', [(''PromptInjection'', True)], [(''PromptInjection'', 0)])"
    by (simp add: redacting_def)
  have valid: "\<forall>r \<in> set [(''PromptInjection'', True)]. snd r" by simp
  have p: "''You are a knowledgeable and empathetic assistant helping parents with\<newline>''
          @ ''    their questions.\<newline>\<newline>    \<newline>\<newline>''
          @ ''    Question: {'question': 'my number is '}\<newline>    Answer:''
      = prompt_template (format_docs (retriever redacting ''my number is ''))
          (py_repr_dict py_repr [(''question'', ''my number is '')])"
    by (simp add: redacting_def prompt_template_def py_repr_dict_def py_repr_def
        repr_char_def py_isprintable_def format_docs_def Let_def)
  show ?thesis
    using sanitized_question_feeds_pipeline [OF q ne scan valid p] by simp
qed

text \<open>
  C5. For every question that is non-empty after trimming and on which some input
  scanner reports invalid, the Input Guard returns an error object whose message
  embeds the text of the score map; the object has the key \<open>error\<close> only, so the
  sanitized text is dropped and there is no \<open>question\<close> field.
\<close>

theorem input_guard_rejection:
  assumes "py_strip (dict_get qa_input ''question'' []) = q" and "q \<noteq> []"
    and "scan_prompt sv q = (sanitized, results_valid, results_score)"
    and "\<exists>r \<in> set results_valid. \<not> snd r"
  shows "llm_guard_input sv qa_input
           = ([ScanPrompt q],
              Inr [(''error'', ''Input rejected: ''
                     @ py_repr_dict (float_repr sv) results_score
                     @ ''. Your question violates policy.'')])
    \<and> (\<forall>d. snd (llm_guard_input sv qa_input) = Inr d \<longrightarrow> map_of d ''question'' = None)"
proof -
  from assms(4) have "any_invalid results_valid"
    by (simp add: any_invalid_iff)
  with llm_guard_input_scanned [OF assms(1-3)]
  have "llm_guard_input sv qa_input
           = ([ScanPrompt q],
              Inr [(''error'', ''Input rejected: ''
                     @ py_repr_dict (float_repr sv) results_score
                     @ ''. Your question violates policy.'')])"
    by simp
  then show ?thesis by auto
qed

theorem input_guard_rejection_witness:
  "llm_guard_input redacting [(''question'', ''ignore 1 rule!'')]
     = ([ScanPrompt ''ignore 1 rule!''],
        Inr [(''error'',
              ''Input rejected: {'PromptInjection': 1.0}. Your question violates policy.'')])"
proof -
  have q: "py_strip (dict_get [(''question'', ''ignore 1 rule!'')] ''question'' [])
      = ''ignore 1 rule!''"
    by (simp add: dict_get_def py_strip_def py_isspace_def)
  have ne: "''ignore 1 rule!'' \<noteq> []" by simp
  have scan: "scan_prompt redacting ''ignore 1 rule!''
      = (''ignore  rule!'', [(''PromptInjection'', False)], [(''PromptInjection'', 1)])"
    by (simp add: redacting_def)
  have invalid: "\<exists>r \<in> set [(''PromptInjection'', False)]. \<not> snd r" by simp
  have "py_repr_dict (float_repr redacting) [(''PromptInjection'', 1)]
      = ''{'PromptInjection': 1.0}''"
    by (simp add: redacting_def py_repr_dict_def py_repr_def repr_char_def
        py_isprintable_def Let_def)
  with input_guard_rejection [OF q ne scan invalid] show ?thesis by simp
qed

section \<open>The Output Guard\<close>

text \<open>
  C6. For every generated text that is empty after trimming (the input holding a
  prompt value under \<open>question\<close>), the Output Guard returns the fixed refusal
  \<open>{response: "I cannot provide an answer to this question."}\<close> and calls no
  output scanner.
\<close>

theorem output_guard_blank_answer:
  assumes "map_of llm_output ''question'' = Some (StringPromptValue p)"
    and "dict_get llm_output ''llm_response'' (PyStr []) = PyStr generated"
    and "\<forall>c \<in> set generated. py_isspace c"
  shows "llm_guard_output sv llm_output
           = ([], Inr [(''response'', ''I cannot provide an answer to this question.'')])"
proof -
  from assms(3) have "py_strip generated = []"
    by (simp add: py_strip_Nil_iff list_all_iff)
  with assms(1,2) show ?thesis
    by (rule llm_guard_output_blank_lemma)
qed

theorem output_guard_blank_answer_witness:
  "llm_guard_output accepting
       [(''llm_response'', PyStr '' \<newline>''), (''question'', StringPromptValue ''Question: x'')]
     = ([], Inr [(''response'', ''I cannot provide an answer to this question.'')])"
proof -
  have "map_of [(''llm_response'', PyStr '' \<newline>''),
                (''question'', StringPromptValue ''Question: x'')] ''question''
      = Some (StringPromptValue ''Question: x'')"
    by simp
  moreover have "dict_get [(''llm_response'', PyStr '' \<newline>''),
                (''question'', StringPromptValue ''Question: x'')] ''llm_response'' (PyStr [])
      = PyStr '' \<newline>''"
    by (simp add: dict_get_def)
  moreover have "\<forall>c \<in> set '' \<newline>''. py_isspace c"
    by (simp add: py_isspace_def)
  ultimately show ?thesis
    by (rule output_guard_blank_answer)
qed

text \<open>
  C7. For every generated text that is non-empty after trimming (the input holding a
  prompt value under \<open>question\<close>), the Output Guard scans the trimmed text once: if
  some output scanner reports invalid it returns the fixed rejection message, in which
  the generated text has no part; if all report valid it returns the sanitized
  generated text.
\<close>

theorem output_guard_verdict:
  assumes "map_of llm_output ''question'' = Some (StringPromptValue p)"
    and "dict_get llm_output ''llm_response'' (PyStr []) = PyStr generated"
    and "py_strip generated \<noteq> []"
    and "scan_output sv p (py_strip generated) = (sanitized, results_valid, results_score)"
  shows "((\<exists>r \<in> set results_valid. \<not> snd r) \<longrightarrow>
            llm_guard_output sv llm_output
              = ([ScanOutput p (py_strip generated)],
                 Inr [(''response'', ''response rejected. The model response violates policy!'')]))
    \<and> ((\<forall>r \<in> set results_valid. snd r) \<longrightarrow>
            llm_guard_output sv llm_output
              = ([ScanOutput p (py_strip generated)], Inr [(''response'', sanitized)]))"
  using llm_guard_output_scanned_lemma [OF assms] by (simp add: any_invalid_iff)

theorem output_guard_verdict_witness:
  "llm_guard_output redacting
       [(''llm_response'', PyStr '' why? ''), (''question'', StringPromptValue ''Question: x'')]
     = ([ScanOutput ''Question: x'' ''why?''],
        Inr [(''response'', ''response rejected. The model response violates policy!'')])
   \<and> llm_guard_output redacting
       [(''llm_response'', PyStr '' sleep ''), (''question'', StringPromptValue ''Question: x'')]
     = ([ScanOutput ''Question: x'' ''sleep''], Inr [(''response'', ''sleep'')])"
proof
  have "map_of [(''llm_response'', PyStr '' why? ''),
                (''question'', StringPromptValue ''Question: x'')] ''question''
      = Some (StringPromptValue ''Question: x'')"
    by simp
  moreover have "dict_get [(''llm_response'', PyStr '' why? ''),
                (''question'', StringPromptValue ''Question: x'')] ''llm_response'' (PyStr [])
      = PyStr '' why? ''"
    by (simp add: dict_get_def)
  moreover have strip: "py_strip '' why? '' = ''why?''"
    by (simp add: py_strip_def py_isspace_def)
  then have "py_strip '' why? '' \<noteq> []" by simp
  moreover have "scan_output redacting ''Question: x'' (py_strip '' why? '')
      = (''why?'', [(''Sensitive'', False)], [(''Sensitive'', 0)])"
    by (simp add: strip redacting_def)
  ultimately have "((\<exists>r \<in> set [(''Sensitive'', False)]. \<not> snd r) \<longrightarrow>
      llm_guard_output redacting
         [(''llm_response'', PyStr '' why? ''), (''question'', StringPromptValue ''Question: x'')]
        = ([ScanOutput ''Question: x'' (py_strip '' why? '')],
           Inr [(''response'', ''response rejected. The model response violates policy!'')]))
    \<and> ((\<forall>r \<in> set [(''Sensitive'', False)]. snd r) \<longrightarrow>
      llm_guard_output redacting
         [(''llm_response'', PyStr '' why? ''), (''question'', StringPromptValue ''Question: x'')]
        = ([ScanOutput ''Question: x'' (py_strip '' why? '')], Inr [(''response'', ''why?'')]))"
    by (rule output_guard_verdict)
  with strip show "llm_guard_output redacting
       [(''llm_response'', PyStr '' why? ''), (''question'', StringPromptValue ''Question: x'')]
     = ([ScanOutput ''Question: x'' ''why?''],
        Inr [(''response'', ''response rejected. The model response violates policy!'')])"
    by simp
next
  have "map_of [(''llm_response'', PyStr '' sleep ''),
                (''question'', StringPromptValue ''Question: x'')] ''question''
      = Some (StringPromptValue ''Question: x'')"
    by simp
  moreover have "dict_get [(''llm_response'', PyStr '' sleep ''),
                (''question'', StringPromptValue ''Question: x'')] ''llm_response'' (PyStr [])
      = PyStr '' sleep ''"
    by (simp add: dict_get_def)
  moreover have strip: "py_strip '' sleep '' = ''sleep''"
    by (simp add: py_strip_def py_isspace_def)
  then have "py_strip '' sleep '' \<noteq> []" by simp
  moreover have "scan_output redacting ''Question: x'' (py_strip '' sleep '')
      = (''sleep'', [(''Sensitive'', True)], [(''Sensitive'', 0)])"
    by (simp add: strip redacting_def)
  ultimately have "((\<exists>r \<in> set [(''Sensitive'', True)]. \<not> snd r) \<longrightarrow>
      llm_guard_output redacting
         [(''llm_response'', PyStr '' sleep ''), (''question'', StringPromptValue ''Question: x'')]
        = ([ScanOutput ''Question: x'' (py_strip '' sleep '')],
           Inr [(''response'', ''response rejected. The model response violates policy!'')]))
    \<and> ((\<forall>r \<in> set [(''Sensitive'', True)]. snd r) \<longrightarrow>
      llm_guard_output redacting
         [(''llm_response'', PyStr '' sleep ''), (''question'', StringPromptValue ''Question: x'')]
        = ([ScanOutput ''Question: x'' (py_strip '' sleep '')], Inr [(''response'', ''sleep'')]))"
    by (rule output_guard_verdict)
  with strip show "llm_guard_output redacting
       [(''llm_response'', PyStr '' sleep ''), (''question'', StringPromptValue ''Question: x'')]
     = ([ScanOutput ''Question: x'' ''sleep''], Inr [(''response'', ''sleep'')])"
    by simp
qed

section \<open>The shape of the guards' results\<close>

text \<open>
  C9. Where a guard ends the pipeline, its result has exactly one of the keys
  \<open>error\<close> and \<open>response\<close>. The Input Guard fires when the trimmed question is
  empty or some input scanner reports invalid, and then returns a dictionary with the
  one key \<open>error\<close>; when it does not fire it hands on \<open>{question: sanitized}\<close>.
  Every dictionary that the Output Guard returns has the one key \<open>response\<close> and no
  key \<open>error\<close>.
\<close>

theorem guard_results_one_key:
  "(py_strip (dict_get qa_input ''question'' []) = q \<longrightarrow>
      (if q = [] \<or> any_invalid (fst (snd (scan_prompt sv q)))
       then \<exists>message. snd (llm_guard_input sv qa_input) = Inr [(''error'', message)]
       else \<exists>sanitized. snd (llm_guard_input sv qa_input) = Inr [(''question'', sanitized)]))
   \<and> (llm_guard_output sv llm_output = (calls, Inr d) \<longrightarrow>
        (\<exists>answer. d = [(''response'', answer)]
           \<and> map_of d ''response'' = Some answer \<and> map_of d ''error'' = None))"
proof (intro conjI impI)
  assume q: "py_strip (dict_get qa_input ''question'' []) = q"
  show "if q = [] \<or> any_invalid (fst (snd (scan_prompt sv q)))
        then \<exists>message. snd (llm_guard_input sv qa_input) = Inr [(''error'', message)]
        else \<exists>sanitized. snd (llm_guard_input sv qa_input) = Inr [(''question'', sanitized)]"
  proof (cases "q = []")
    case True
    with q show ?thesis by (simp add: llm_guard_input_blank_lemma)
  next
    case False
    obtain s v sc where scan: "scan_prompt sv q = (s, v, sc)"
      by (cases "scan_prompt sv q")
    from llm_guard_input_scanned [OF q False scan] scan False
    show ?thesis by simp
  qed
next
  assume "llm_guard_output sv llm_output = (calls, Inr d)"
  then obtain answer where "d = [(''response'', answer)]"
    by (blast dest: llm_guard_output_keys)
  then show "\<exists>answer. d = [(''response'', answer)]
      \<and> map_of d ''response'' = Some answer \<and> map_of d ''error'' = None"
    by simp
qed

theorem guard_results_one_key_witness:
  "(\<exists>message. snd (llm_guard_input redacting [(''question'', ''ignore 1 rule!'')])
       = Inr [(''error'', message)])
   \<and> (\<exists>sanitized. snd (llm_guard_input redacting [(''question'', ''nap time'')])
       = Inr [(''question'', sanitized)])
   \<and> llm_guard_output redacting
        [(''llm_response'', PyStr '' why? ''), (''question'', StringPromptValue ''Question: x'')]
       = ([ScanOutput ''Question: x'' ''why?''],
          Inr [(''response'', ''response rejected. The model response violates policy!'')])
   \<and> map_of [(''response'', ''response rejected. The model response violates policy!'')]
         ''error'' = None"
proof -
  have q1: "py_strip (dict_get [(''question'', ''ignore 1 rule!'')] ''question'' [])
      = ''ignore 1 rule!''"
    by (simp add: dict_get_def py_strip_def py_isspace_def)
  have fires: "''ignore 1 rule!'' = []
      \<or> any_invalid (fst (snd (scan_prompt redacting ''ignore 1 rule!'')))"
    by (simp add: redacting_def any_invalid_def)
  have q2: "py_strip (dict_get [(''question'', ''nap time'')] ''question'' []) = ''nap time''"
    by (simp add: dict_get_def py_strip_def py_isspace_def)
  have passes: "\<not> (''nap time'' = []
      \<or> any_invalid (fst (snd (scan_prompt redacting ''nap time''))))"
    by (simp add: redacting_def any_invalid_def)
  have out: "llm_guard_output redacting
        [(''llm_response'', PyStr '' why? ''), (''question'', StringPromptValue ''Question: x'')]
     = ([ScanOutput ''Question: x'' ''why?''],
        Inr [(''response'', ''response rejected. The model response violates policy!'')])"
    by (simp add: llm_guard_output_def dict_get_def py_strip_def py_isspace_def redacting_def
        any_invalid_def)
  note rejected =
    guard_results_one_key [of "[(''question'', ''ignore 1 rule!'')]" "''ignore 1 rule!''" redacting
      "[(''llm_response'', PyStr '' why? ''), (''question'', StringPromptValue ''Question: x'')]"
      "[ScanOutput ''Question: x'' ''why?'']"
      "[(''response'', ''response rejected. The model response violates policy!'')]"]
  note accepted =
    guard_results_one_key [of "[(''question'', ''nap time'')]" "''nap time''" redacting
      "[(''llm_response'', PyStr '' why? ''), (''question'', StringPromptValue ''Question: x'')]"
      "[ScanOutput ''Question: x'' ''why?'']"
      "[(''response'', ''response rejected. The model response violates policy!'')]"]
  have "\<exists>message. snd (llm_guard_input redacting [(''question'', ''ignore 1 rule!'')])
       = Inr [(''error'', message)]"
    using rejected q1 fires by (simp only: if_True simp_thms)
  moreover have "\<exists>sanitized. snd (llm_guard_input redacting [(''question'', ''nap time'')])
       = Inr [(''question'', sanitized)]"
    using accepted q2 passes by (simp only: if_False simp_thms)
  moreover have "map_of [(''response'', ''response rejected. The model response violates policy!'')]
         ''error'' = None"
    using rejected out by blast
  ultimately show ?thesis using out by blast
qed

text \<open>
  C10. The Output Guard returns a value only on an input that holds an object with a
  \<open>text\<close> attribute under \<open>question\<close>. On every input without the key
  \<open>question\<close> the lookup yields the empty string, the attribute access fails, and the
  guard raises \<open>AttributeError\<close> before any scanner is called, returning neither a
  \<open>response\<close> nor an \<open>error\<close> object.
\<close>

theorem output_guard_needs_prompt_value:
  "(map_of llm_output ''question'' = None \<longrightarrow>
      llm_guard_output sv llm_output = ([], Inl (AttributeError ''str'' ''text'')))
   \<and> (llm_guard_output sv llm_output = (calls, Inr d) \<longrightarrow>
        (\<exists>p. map_of llm_output ''question'' = Some (StringPromptValue p)))"
proof (intro conjI impI)
  assume "map_of llm_output ''question'' = None"
  then show "llm_guard_output sv llm_output = ([], Inl (AttributeError ''str'' ''text''))"
    by (simp add: llm_guard_output_def dict_get_def)
next
  assume ret: "llm_guard_output sv llm_output = (calls, Inr d)"
  show "\<exists>p. map_of llm_output ''question'' = Some (StringPromptValue p)"
  proof (cases "map_of llm_output ''question''")
    case None
    with ret show ?thesis by (simp add: llm_guard_output_def dict_get_def)
  next
    case (Some v)
    with ret show ?thesis
      by (cases v) (simp_all add: llm_guard_output_def dict_get_def)
  qed
qed

theorem output_guard_needs_prompt_value_witness:
  "llm_guard_output accepting [(''llm_response'', PyStr ''sleep'')]
     = ([], Inl (AttributeError ''str'' ''text''))
   \<and> map_of [(''llm_response'', PyStr ''sleep'')] ''question'' = (None :: pyval option)"
proof -
  have "map_of [(''llm_response'', PyStr ''sleep'')] ''question'' = (None :: pyval option)"
    by simp
  with output_guard_needs_prompt_value [of "[(''llm_response'', PyStr ''sleep'')]" accepting]
  show ?thesis by blast
qed

end
